theory Spec2Isabelle
  imports Main
begin

section \<open>The asset fixtures of the Iroha command-line tests\<close>

text \<open>
  The module \<^verbatim>\<open>pytests/iroha_cli_tests/models/asset.py\<close> declares two data classes,
  \<^verbatim>\<open>AssetDefinition\<close> and \<^verbatim>\<open>Asset\<close>. Both are declared with a plain
  \<^verbatim>\<open>@dataclass\<close>, so Python generates \<^verbatim>\<open>__init__\<close> and \<^verbatim>\<open>__eq__\<close> for them, keeps
  the \<^verbatim>\<open>__repr__\<close> each class writes itself, and leaves attribute assignment as it
  is for any object (the decorator is not given \<^verbatim>\<open>frozen=True\<close>).

  Python objects have an identity and are reached through references: an \<^verbatim>\<open>Asset\<close>
  holds a reference to its \<^verbatim>\<open>AssetDefinition\<close>, which other holders may share. The
  model keeps the objects in a store, one list for each class; a reference is a position
  in the list of its class. Fields have the types the annotations give them: \<^verbatim>\<open>str\<close> is
  \<^typ>\<open>string\<close>, \<^verbatim>\<open>Optional[int]\<close> is \<^typ>\<open>int option\<close> (Python integers are
  unbounded).
\<close>

subsection \<open>Objects and the store\<close>

type_synonym ref = nat

record AssetDefinition =
  name :: string
  domain :: string
  scale :: "int option"

text \<open>
  The fields \<^verbatim>\<open>definition\<close> and \<^verbatim>\<open>value\<close> of \<^verbatim>\<open>Asset\<close> carry a prime here, since
  their names are reserved words of the theory language.
\<close>

record Asset =
  definition' :: ref
  account :: string
  value' :: string

record heap =
  definitions :: "AssetDefinition list"
  assets :: "Asset list"

text \<open>
  Reading through a reference. Python never holds a reference to an object that does not
  exist; in the model a position beyond the end of the list reads as \<open>None\<close>, and
  \<open>live\<close> below says that no stored asset holds such a position.
\<close>

definition deref :: "'a list \<Rightarrow> ref \<Rightarrow> 'a option" where
  "deref xs r = (if r < length xs then Some (xs ! r) else None)"

definition live :: "heap \<Rightarrow> bool" where
  "live h = list_all (\<lambda>a. definition' a < length (definitions h)) (assets h)"

definition empty_heap :: heap where
  "empty_heap = \<lparr>definitions = [], assets = []\<rparr>"

subsection \<open>Construction\<close>

text \<open>
  \<^verbatim>\<open>scale: Optional[int] = None\<close> gives the generated \<^verbatim>\<open>__init__\<close> a third parameter
  with the default \<^verbatim>\<open>None\<close>: a call may leave the argument out.
\<close>

datatype 'a argument = Omitted | Given 'a

definition AssetDefinition_init :: "string \<Rightarrow> string \<Rightarrow> int option argument \<Rightarrow> AssetDefinition" where
  "AssetDefinition_init n d sc =
     \<lparr>name = n, domain = d, scale = (case sc of Omitted \<Rightarrow> None | Given s \<Rightarrow> s)\<rparr>"

definition Asset_init :: "ref \<Rightarrow> string \<Rightarrow> string \<Rightarrow> Asset" where
  "Asset_init d a v = \<lparr>definition' = d, account = a, value' = v\<rparr>"

text \<open>
  A constructor call \<^verbatim>\<open>AssetDefinition(n, d, sc)\<close> or \<^verbatim>\<open>Asset(d, a, v)\<close> makes a new
  object, runs \<^verbatim>\<open>__init__\<close> on it and returns the reference to it.
\<close>

definition new_AssetDefinition :: "string \<Rightarrow> string \<Rightarrow> int option argument \<Rightarrow> heap \<Rightarrow> ref \<times> heap" where
  "new_AssetDefinition n d sc h =
     (length (definitions h), h\<lparr>definitions := definitions h @ [AssetDefinition_init n d sc]\<rparr>)"

definition new_Asset :: "ref \<Rightarrow> string \<Rightarrow> string \<Rightarrow> heap \<Rightarrow> ref \<times> heap" where
  "new_Asset d a v h = (length (assets h), h\<lparr>assets := assets h @ [Asset_init d a v]\<rparr>)"

subsection \<open>The methods of \<^verbatim>\<open>AssetDefinition\<close>\<close>

text \<open>
  A method call takes the reference \<^verbatim>\<open>self\<close> and the store, and returns its value
  together with the store it leaves. Both \<^verbatim>\<open>__repr__\<close> and \<^verbatim>\<open>get_id\<close> return the
  formatted string \<^verbatim>\<open>f"{self.name}#{self.domain}"\<close>; formatting a \<^verbatim>\<open>str\<close> with an empty
  format specification is the string itself.
\<close>

definition AssetDefinition_repr :: "ref \<Rightarrow> heap \<Rightarrow> (string \<times> heap) option" where
  "AssetDefinition_repr self h =
     (case deref (definitions h) self of
        None \<Rightarrow> None
      | Some d \<Rightarrow> Some (name d @ ''#'' @ domain d, h))"

definition get_id :: "ref \<Rightarrow> heap \<Rightarrow> (string \<times> heap) option" where
  "get_id self h =
     (case deref (definitions h) self of
        None \<Rightarrow> None
      | Some d \<Rightarrow> Some (name d @ ''#'' @ domain d, h))"

text \<open>
  The generated \<^verbatim>\<open>__eq__\<close> compares the tuples of the fields of two objects of the
  class: \<^verbatim>\<open>(self.name, self.domain, self.scale) == (other.name, other.domain, other.scale)\<close>.
  The items are strings, integers and \<^verbatim>\<open>None\<close>, which Python compares by value. (For
  an \<^verbatim>\<open>other\<close> of another class the method returns \<^verbatim>\<open>NotImplemented\<close>; both
  arguments are definitions here.)
\<close>

definition AssetDefinition_eq :: "ref \<Rightarrow> ref \<Rightarrow> heap \<Rightarrow> (bool \<times> heap) option" where
  "AssetDefinition_eq self other h =
     (case deref (definitions h) self of
        None \<Rightarrow> None
      | Some x \<Rightarrow>
          (case deref (definitions h) other of
             None \<Rightarrow> None
           | Some y \<Rightarrow> Some ((name x, domain x, scale x) = (name y, domain y, scale y), h)))"

subsection \<open>The methods of \<^verbatim>\<open>Asset\<close>\<close>

text \<open>
  \<^verbatim>\<open>__repr__\<close> returns \<^verbatim>\<open>f"{self.definition.get_id()}:{self.value}"\<close>: it calls
  \<^verbatim>\<open>get_id\<close> on the definition the asset refers to, and reads \<^verbatim>\<open>self.value\<close> after
  that call has returned.
\<close>

definition Asset_repr :: "ref \<Rightarrow> heap \<Rightarrow> (string \<times> heap) option" where
  "Asset_repr self h =
     (case deref (assets h) self of
        None \<Rightarrow> None
      | Some a \<Rightarrow>
          (case get_id (definition' a) h of
             None \<Rightarrow> None
           | Some (i, h1) \<Rightarrow>
               (case deref (assets h1) self of
                  None \<Rightarrow> None
                | Some a1 \<Rightarrow> Some (i @ '':'' @ value' a1, h1))))"

text \<open>\<^verbatim>\<open>get_value\<close> returns \<^verbatim>\<open>self.value\<close>.\<close>

definition get_value :: "ref \<Rightarrow> heap \<Rightarrow> (string \<times> heap) option" where
  "get_value self h =
     (case deref (assets h) self of
        None \<Rightarrow> None
      | Some a \<Rightarrow> Some (value' a, h))"

text \<open>
  The generated \<^verbatim>\<open>__eq__\<close> of \<^verbatim>\<open>Asset\<close> compares
  \<^verbatim>\<open>(self.definition, self.account, self.value)\<close> with the tuple of the other asset.
  Python compares two tuples item by item, and takes two items for equal when they are
  the same object, before it asks their \<^verbatim>\<open>__eq__\<close>; the first pair of items that
  differ decides. The first items are references to definitions, so their \<^verbatim>\<open>__eq__\<close> is
  the one above; the other items are strings.
\<close>

definition Asset_eq :: "ref \<Rightarrow> ref \<Rightarrow> heap \<Rightarrow> (bool \<times> heap) option" where
  "Asset_eq self other h =
     (case deref (assets h) self of
        None \<Rightarrow> None
      | Some x \<Rightarrow>
          (case deref (assets h) other of
             None \<Rightarrow> None
           | Some y \<Rightarrow>
               (if definition' x = definition' y
                then Some (account x = account y \<and> value' x = value' y, h)
                else
                  (case AssetDefinition_eq (definition' x) (definition' y) h of
                     None \<Rightarrow> None
                   | Some (b, h1) \<Rightarrow>
                       Some (b \<and> account x = account y \<and> value' x = value' y, h1)))))"

subsection \<open>Attribute assignment\<close>

text \<open>
  Neither class is frozen, so \<^verbatim>\<open>obj.value = v\<close> and \<^verbatim>\<open>obj.name = n\<close> are ordinary
  assignments that replace the field of the object in place.
\<close>

definition set_value :: "ref \<Rightarrow> string \<Rightarrow> heap \<Rightarrow> heap option" where
  "set_value self v h =
     (case deref (assets h) self of
        None \<Rightarrow> None
      | Some a \<Rightarrow> Some (h\<lparr>assets := (assets h)[self := a\<lparr>value' := v\<rparr>]\<rparr>))"

definition set_name :: "ref \<Rightarrow> string \<Rightarrow> heap \<Rightarrow> heap option" where
  "set_name self n h =
     (case deref (definitions h) self of
        None \<Rightarrow> None
      | Some d \<Rightarrow> Some (h\<lparr>definitions := (definitions h)[self := d\<lparr>name := n\<rparr>]\<rparr>))"

subsection \<open>The fixture of the examples\<close>

text \<open>
  The definition \<^verbatim>\<open>AssetDefinition("xor", "soramitsu")\<close> and the asset
  \<^verbatim>\<open>Asset(d, "alice@wonderland", "100")\<close> of it, where the definition is the first
  object of its class.
\<close>

definition xor_soramitsu :: AssetDefinition where
  "xor_soramitsu = \<lparr>name = ''xor'', domain = ''soramitsu'', scale = None\<rparr>"

definition alice_100 :: Asset where
  "alice_100 = \<lparr>definition' = 0, account = ''alice@wonderland'', value' = ''100''\<rparr>"

section \<open>Properties\<close>

subsection \<open>Reading the store\<close>

lemma deref_append_last: "deref (xs @ [x]) (length xs) = Some x"
  by (simp add: deref_def)

lemma deref_append_old: "r < length xs \<Longrightarrow> deref (xs @ [x]) r = deref xs r"
  by (simp add: deref_def nth_append)

lemma deref_Some_iff: "deref xs r = Some x \<longleftrightarrow> r < length xs \<and> xs ! r = x"
  by (auto simp: deref_def)

subsection \<open>What the constructors store\<close>

lemma new_AssetDefinition_deref:
  "new_AssetDefinition n d sc h = (r, h') \<Longrightarrow>
     deref (definitions h') r = Some (AssetDefinition_init n d sc)"
  by (auto simp: new_AssetDefinition_def deref_append_last)

lemma new_AssetDefinition_old:
  "new_AssetDefinition n d sc h = (r, h') \<Longrightarrow> q < length (definitions h) \<Longrightarrow>
     deref (definitions h') q = deref (definitions h) q"
  by (auto simp: new_AssetDefinition_def deref_append_old)

lemma new_Asset_deref:
  "new_Asset d a v h = (r, h') \<Longrightarrow> deref (assets h') r = Some (Asset_init d a v)"
  by (auto simp: new_Asset_def deref_append_last)

lemma new_Asset_definitions:
  "new_Asset d a v h = (r, h') \<Longrightarrow> definitions h' = definitions h"
  by (auto simp: new_Asset_def)

subsection \<open>Every reference of a stored asset is live\<close>

text \<open>
  The empty store is live, and the constructors and the assignments keep a live store
  live: every store a program can reach is live.
\<close>

lemma live_empty: "live empty_heap"
  by (simp add: live_def empty_heap_def)

lemma live_new_AssetDefinition:
  assumes "live h" and new: "new_AssetDefinition n d sc h = (r, h')"
  shows "live h'"
proof -
  from new have "assets h' = assets h"
    and "length (definitions h') = Suc (length (definitions h))"
    by (auto simp: new_AssetDefinition_def)
  with \<open>live h\<close> show ?thesis
    by (auto simp: live_def list_all_iff)
qed

lemma live_new_Asset:
  assumes "live h" and "dr < length (definitions h)" and new: "new_Asset dr a v h = (r, h')"
  shows "live h'"
proof -
  from new have "assets h' = assets h @ [Asset_init dr a v]"
    and "definitions h' = definitions h"
    by (auto simp: new_Asset_def)
  with assms(1,2) show ?thesis
    by (simp add: live_def Asset_init_def)
qed

lemma live_definition:
  assumes "live h" and "deref (assets h) r = Some x"
  shows "definition' x < length (definitions h)"
proof -
  from assms(2) have "x \<in> set (assets h)"
    by (auto simp: deref_Some_iff)
  with assms(1) show ?thesis
    by (simp add: live_def list_all_iff)
qed

lemma live_set_value:
  assumes "live h" and set: "set_value r v h = Some h'"
  shows "live h'"
proof -
  from set obtain a where a: "deref (assets h) r = Some a"
    and h': "h' = h\<lparr>assets := (assets h)[r := a\<lparr>value' := v\<rparr>]\<rparr>"
    by (auto simp: set_value_def split: option.splits)
  from \<open>live h\<close> a have "definition' (a\<lparr>value' := v\<rparr>) < length (definitions h)"
    by (simp add: live_definition)
  moreover have "set ((assets h)[r := a\<lparr>value' := v\<rparr>]) \<subseteq> insert (a\<lparr>value' := v\<rparr>) (set (assets h))"
    by (rule set_update_subset_insert)
  ultimately show ?thesis
    using \<open>live h\<close> h' by (auto simp: live_def list_all_iff)
qed

lemma live_set_name:
  assumes "live h" and set: "set_name r n h = Some h'"
  shows "live h'"
proof -
  from set have "assets h' = assets h" and "length (definitions h') = length (definitions h)"
    by (auto simp: set_name_def split: option.splits)
  with \<open>live h\<close> show ?thesis
    by (simp add: live_def)
qed

subsection \<open>The methods on live objects\<close>

lemma get_id_live:
  "deref (definitions h) r = Some d \<Longrightarrow> get_id r h = Some (name d @ ''#'' @ domain d, h)"
  by (simp add: get_id_def)

lemma AssetDefinition_repr_live:
  "deref (definitions h) r = Some d \<Longrightarrow>
     AssetDefinition_repr r h = Some (name d @ ''#'' @ domain d, h)"
  by (simp add: AssetDefinition_repr_def)

lemma AssetDefinition_eq_live:
  "deref (definitions h) p = Some x \<Longrightarrow> deref (definitions h) q = Some y \<Longrightarrow>
     AssetDefinition_eq p q h =
       Some (name x = name y \<and> domain x = domain y \<and> scale x = scale y, h)"
  by (simp add: AssetDefinition_eq_def)

lemma get_value_live:
  "deref (assets h) r = Some a \<Longrightarrow> get_value r h = Some (value' a, h)"
  by (simp add: get_value_def)

lemma Asset_repr_live:
  assumes x: "deref (assets h) r = Some x"
    and D: "deref (definitions h) (definition' x) = Some D"
  shows "Asset_repr r h = Some (name D @ ''#'' @ domain D @ '':'' @ value' x, h)"
proof -
  from D have "get_id (definition' x) h = Some (name D @ ''#'' @ domain D, h)"
    by (rule get_id_live)
  with x show ?thesis
    by (simp add: Asset_repr_def)
qed

subsection \<open>The store a method leaves\<close>

lemma get_id_frame: "get_id r h = Some (s, h') \<Longrightarrow> h' = h"
  by (auto simp: get_id_def split: option.splits)

lemma AssetDefinition_eq_frame: "AssetDefinition_eq p q h = Some (b, h') \<Longrightarrow> h' = h"
  by (auto simp: AssetDefinition_eq_def split: option.splits)

lemma Asset_repr_frame: "Asset_repr r h = Some (s, h') \<Longrightarrow> h' = h"
  by (auto simp: Asset_repr_def split: option.splits dest: get_id_frame)

lemma Asset_eq_frame: "Asset_eq p q h = Some (b, h') \<Longrightarrow> h' = h"
  by (auto simp: Asset_eq_def split: option.splits if_splits dest: AssetDefinition_eq_frame)

section \<open>The claims\<close>

text \<open>
  C1. For all strings \<open>n\<close> and \<open>d\<close> (and whatever is passed for the scale),
  \<^verbatim>\<open>get_id\<close> on the definition just constructed from them returns \<open>n\<close>, then
  \<^verbatim>\<open>#\<close>, then \<open>d\<close>. The call returns (the result is \<open>Some\<close>), and the store it
  leaves is the store it was given.
\<close>

theorem get_id_of_new_AssetDefinition:
  "case new_AssetDefinition n d sc h of (r, h') \<Rightarrow> get_id r h' = Some (n @ ''#'' @ d, h')"
proof -
  obtain r h' where new: "new_AssetDefinition n d sc h = (r, h')"
    by (cases "new_AssetDefinition n d sc h")
  let ?D = "AssetDefinition_init n d sc"
  from new have "deref (definitions h') r = Some ?D"
    by (rule new_AssetDefinition_deref)
  then have "get_id r h' = Some (name ?D @ ''#'' @ domain ?D, h')"
    by (rule get_id_live)
  then have "get_id r h' = Some (n @ ''#'' @ d, h')"
    by (simp add: AssetDefinition_init_def)
  with new show ?thesis by simp
qed

text \<open>
  C2. Let \<open>dr\<close> refer to a definition whose \<^verbatim>\<open>get_id\<close> is \<open>i\<close>. The display form of
  the asset just constructed from \<open>dr\<close>, an account \<open>a\<close> and a value \<open>v\<close> is \<open>i\<close>, then
  \<^verbatim>\<open>:\<close>, then \<open>v\<close>. And in any store \<open>g\<close>, whatever has been assigned since the
  construction, the display form of an asset is made of the \<^verbatim>\<open>get_id\<close> of the
  definition it refers to in \<open>g\<close> and of the value it holds in \<open>g\<close>: nothing is kept from
  an earlier read.
\<close>

theorem Asset_repr_is_id_colon_value:
  "(get_id dr h = Some (i, h0) \<longrightarrow>
      (case new_Asset dr a v h of
         (r, h') \<Rightarrow> get_id dr h' = Some (i, h') \<and> Asset_repr r h' = Some (i @ '':'' @ v, h')))
   \<and> (deref (assets g) q = Some x \<and> get_id (definition' x) g = Some (j, g0) \<longrightarrow>
        Asset_repr q g = Some (j @ '':'' @ value' x, g))"
proof (intro conjI impI)
  assume id: "get_id dr h = Some (i, h0)"
  obtain r h' where new: "new_Asset dr a v h = (r, h')"
    by (cases "new_Asset dr a v h")
  from id obtain D where D: "deref (definitions h) dr = Some D"
    and i: "i = name D @ ''#'' @ domain D"
    by (auto simp: get_id_def split: option.splits)
  from new have same: "definitions h' = definitions h"
    by (rule new_Asset_definitions)
  from new have self: "deref (assets h') r = Some (Asset_init dr a v)"
    by (rule new_Asset_deref)
  from D same have D': "deref (definitions h') (definition' (Asset_init dr a v)) = Some D"
    by (simp add: Asset_init_def)
  from D same i have "get_id dr h' = Some (i, h')"
    by (simp add: get_id_def)
  moreover from Asset_repr_live [OF self D'] i
  have "Asset_repr r h' = Some (i @ '':'' @ v, h')"
    by (simp add: Asset_init_def)
  ultimately show "case new_Asset dr a v h of
      (r, h') \<Rightarrow> get_id dr h' = Some (i, h') \<and> Asset_repr r h' = Some (i @ '':'' @ v, h')"
    using new by simp
next
  assume "deref (assets g) q = Some x \<and> get_id (definition' x) g = Some (j, g0)"
  then have x: "deref (assets g) q = Some x"
    and id: "get_id (definition' x) g = Some (j, g0)"
    by simp_all
  from id have "g0 = g"
    by (rule get_id_frame)
  with x id show "Asset_repr q g = Some (j @ '':'' @ value' x, g)"
    by (simp add: Asset_repr_def)
qed

text \<open>
  The fixture: the asset of \<^verbatim>\<open>"alice@wonderland"\<close> displays as
  \<^verbatim>\<open>xor#soramitsu:100\<close>; after \<^verbatim>\<open>asset.value = "5"\<close> and, through the shared
  definition, \<^verbatim>\<open>d.name = "val"\<close>, it displays as \<^verbatim>\<open>val#soramitsu:5\<close>.
\<close>

theorem Asset_repr_is_id_colon_value_witness:
  "get_id 0 \<lparr>definitions = [xor_soramitsu], assets = []\<rparr>
     = Some (''xor#soramitsu'', \<lparr>definitions = [xor_soramitsu], assets = []\<rparr>)
   \<and> new_Asset 0 ''alice@wonderland'' ''100'' \<lparr>definitions = [xor_soramitsu], assets = []\<rparr>
     = (0, \<lparr>definitions = [xor_soramitsu], assets = [alice_100]\<rparr>)
   \<and> Asset_repr 0 \<lparr>definitions = [xor_soramitsu], assets = [alice_100]\<rparr>
     = Some (''xor#soramitsu:100'', \<lparr>definitions = [xor_soramitsu], assets = [alice_100]\<rparr>)
   \<and> set_value 0 ''5'' \<lparr>definitions = [xor_soramitsu], assets = [alice_100]\<rparr>
     = Some \<lparr>definitions = [xor_soramitsu], assets = [alice_100\<lparr>value' := ''5''\<rparr>]\<rparr>
   \<and> set_name 0 ''val'' \<lparr>definitions = [xor_soramitsu], assets = [alice_100\<lparr>value' := ''5''\<rparr>]\<rparr>
     = Some \<lparr>definitions = [xor_soramitsu\<lparr>name := ''val''\<rparr>],
             assets = [alice_100\<lparr>value' := ''5''\<rparr>]\<rparr>
   \<and> Asset_repr 0 \<lparr>definitions = [xor_soramitsu\<lparr>name := ''val''\<rparr>],
                    assets = [alice_100\<lparr>value' := ''5''\<rparr>]\<rparr>
     = Some (''val#soramitsu:5'',
         \<lparr>definitions = [xor_soramitsu\<lparr>name := ''val''\<rparr>],
          assets = [alice_100\<lparr>value' := ''5''\<rparr>]\<rparr>)"
proof -
  let ?h = "\<lparr>definitions = [xor_soramitsu], assets = []\<rparr>"
  let ?g = "\<lparr>definitions = [xor_soramitsu\<lparr>name := ''val''\<rparr>],
             assets = [alice_100\<lparr>value' := ''5''\<rparr>]\<rparr>"
  have id: "get_id 0 ?h = Some (''xor#soramitsu'', ?h)"
    by (simp add: get_id_def deref_def xor_soramitsu_def)
  have x: "deref (assets ?g) 0 = Some (alice_100\<lparr>value' := ''5''\<rparr>)"
    by (simp add: deref_def)
  have j: "get_id (definition' (alice_100\<lparr>value' := ''5''\<rparr>)) ?g = Some (''val#soramitsu'', ?g)"
    by (simp add: get_id_def deref_def xor_soramitsu_def alice_100_def)
  from Asset_repr_is_id_colon_value
    [where dr = 0 and h = ?h and i = "''xor#soramitsu''" and ?h0.0 = ?h
       and a = "''alice@wonderland''" and v = "''100''"
       and g = ?g and q = 0 and x = "alice_100\<lparr>value' := ''5''\<rparr>"
       and j = "''val#soramitsu''" and ?g0.0 = ?g]
    id x j
  show ?thesis
    by (simp add: new_Asset_def Asset_init_def alice_100_def set_value_def set_name_def deref_def)
qed

text \<open>
  C3. For every definition reference \<open>dr\<close>, account \<open>a\<close> and string \<open>v\<close>,
  \<^verbatim>\<open>get_value\<close> on the asset just constructed from them returns the string \<open>v\<close>
  itself: the result is a string, whatever \<open>v\<close> is (\<^verbatim>\<open>"abc"\<close> as well as
  \<^verbatim>\<open>"100"\<close>), and no number is made of it.
\<close>

theorem get_value_returns_stored_string:
  "case new_Asset dr a v h of (r, h') \<Rightarrow> get_value r h' = Some (v, h')"
proof -
  obtain r h' where new: "new_Asset dr a v h = (r, h')"
    by (cases "new_Asset dr a v h")
  then have "deref (assets h') r = Some (Asset_init dr a v)"
    by (rule new_Asset_deref)
  then have "get_value r h' = Some (value' (Asset_init dr a v), h')"
    by (rule get_value_live)
  with new show ?thesis
    by (simp add: Asset_init_def)
qed

text \<open>
  C4. \<^verbatim>\<open>AssetDefinition.__repr__\<close> and \<^verbatim>\<open>get_id\<close> are the same function: on every
  reference, in every store, they return the same string and leave the same store.
\<close>

theorem AssetDefinition_repr_is_get_id: "AssetDefinition_repr = get_id"
  by (intro ext) (simp add: AssetDefinition_repr_def get_id_def)

text \<open>
  C5. \<^verbatim>\<open>AssetDefinition("xor", "soramitsu")\<close>, with the scale left out, makes an
  object whose scale is \<^verbatim>\<open>None\<close> and whose \<^verbatim>\<open>get_id\<close> is \<^verbatim>\<open>xor#soramitsu\<close>.
\<close>

theorem xor_soramitsu_default_scale:
  "case new_AssetDefinition ''xor'' ''soramitsu'' Omitted h of
     (r, h') \<Rightarrow>
       map_option scale (deref (definitions h') r) = Some None \<and>
       get_id r h' = Some (''xor#soramitsu'', h')"
proof -
  obtain r h' where new: "new_AssetDefinition ''xor'' ''soramitsu'' Omitted h = (r, h')"
    by (cases "new_AssetDefinition ''xor'' ''soramitsu'' Omitted h")
  let ?D = "AssetDefinition_init ''xor'' ''soramitsu'' Omitted"
  from new have D: "deref (definitions h') r = Some ?D"
    by (rule new_AssetDefinition_deref)
  have "scale ?D = None"
    by (simp add: AssetDefinition_init_def)
  with D have "map_option scale (deref (definitions h') r) = Some None"
    by simp
  moreover from get_id_live [OF D] have "get_id r h' = Some (''xor#soramitsu'', h')"
    by (simp add: AssetDefinition_init_def)
  ultimately show ?thesis
    using new by simp
qed

text \<open>
  C6. Nothing fails. In a live store, for all strings \<open>n\<close>, \<open>d\<close>, \<open>a\<close>, \<open>v\<close> (the empty
  string among them) and every scale argument (left out, \<^verbatim>\<open>None\<close>, or any integer,
  negative ones among them): constructing a definition returns a reference to an object
  that holds exactly \<open>n\<close>, \<open>d\<close> and the scale; constructing an asset from a live
  definition returns a reference to an object that holds exactly the reference,
  \<open>a\<close> and \<open>v\<close>; both leave a live store; and on every object of the store
  \<^verbatim>\<open>get_id\<close>, \<^verbatim>\<open>get_value\<close> and both display forms return a value.
\<close>

theorem construction_and_methods_never_fail:
  assumes "live h"
  shows "(case new_AssetDefinition n d sc h of
            (r, h1) \<Rightarrow>
              live h1 \<and>
              deref (definitions h1) r =
                Some \<lparr>name = n, domain = d,
                      scale = (case sc of Omitted \<Rightarrow> None | Given s \<Rightarrow> s)\<rparr>)
       \<and> (dr < length (definitions h) \<longrightarrow>
            (case new_Asset dr a v h of
               (q, h2) \<Rightarrow>
                 live h2 \<and>
                 deref (assets h2) q = Some \<lparr>definition' = dr, account = a, value' = v\<rparr>))
       \<and> (r0 < length (definitions h) \<longrightarrow>
            get_id r0 h \<noteq> None \<and> AssetDefinition_repr r0 h \<noteq> None)
       \<and> (q0 < length (assets h) \<longrightarrow>
            get_value q0 h \<noteq> None \<and> Asset_repr q0 h \<noteq> None)"
proof (intro conjI impI)
  obtain r h1 where new: "new_AssetDefinition n d sc h = (r, h1)"
    by (cases "new_AssetDefinition n d sc h")
  from \<open>live h\<close> new have "live h1"
    by (rule live_new_AssetDefinition)
  moreover from new_AssetDefinition_deref [OF new]
  have "deref (definitions h1) r =
      Some \<lparr>name = n, domain = d, scale = (case sc of Omitted \<Rightarrow> None | Given s \<Rightarrow> s)\<rparr>"
    by (simp add: AssetDefinition_init_def)
  ultimately show "case new_AssetDefinition n d sc h of
      (r, h1) \<Rightarrow>
        live h1 \<and>
        deref (definitions h1) r =
          Some \<lparr>name = n, domain = d, scale = (case sc of Omitted \<Rightarrow> None | Given s \<Rightarrow> s)\<rparr>"
    using new by simp
next
  assume dr: "dr < length (definitions h)"
  obtain q h2 where new: "new_Asset dr a v h = (q, h2)"
    by (cases "new_Asset dr a v h")
  from \<open>live h\<close> dr new have "live h2"
    by (rule live_new_Asset)
  moreover from new_Asset_deref [OF new]
  have "deref (assets h2) q = Some \<lparr>definition' = dr, account = a, value' = v\<rparr>"
    by (simp add: Asset_init_def)
  ultimately show "case new_Asset dr a v h of
      (q, h2) \<Rightarrow>
        live h2 \<and> deref (assets h2) q = Some \<lparr>definition' = dr, account = a, value' = v\<rparr>"
    using new by simp
next
  assume "r0 < length (definitions h)"
  then have D: "deref (definitions h) r0 = Some (definitions h ! r0)"
    by (simp add: deref_def)
  from get_id_live [OF D] show "get_id r0 h \<noteq> None"
    by simp
  from AssetDefinition_repr_live [OF D] show "AssetDefinition_repr r0 h \<noteq> None"
    by simp
next
  assume "q0 < length (assets h)"
  then have x: "deref (assets h) q0 = Some (assets h ! q0)"
    by (simp add: deref_def)
  from get_value_live [OF x] show "get_value q0 h \<noteq> None"
    by simp
  from \<open>live h\<close> x have "definition' (assets h ! q0) < length (definitions h)"
    by (rule live_definition)
  then have D: "deref (definitions h) (definition' (assets h ! q0)) =
      Some (definitions h ! definition' (assets h ! q0))"
    by (simp add: deref_def)
  from Asset_repr_live [OF x D] show "Asset_repr q0 h \<noteq> None"
    by simp
qed

text \<open>
  In the store of the fixture: a definition with empty name and domain and the scale
  \<open>- 3\<close>, and an asset with empty account and value, are stored as they are given.
\<close>

theorem construction_and_methods_never_fail_witness:
  "live \<lparr>definitions = [xor_soramitsu], assets = [alice_100]\<rparr>
   \<and> new_AssetDefinition [] [] (Given (Some (- 3)))
        \<lparr>definitions = [xor_soramitsu], assets = [alice_100]\<rparr>
       = (1, \<lparr>definitions = [xor_soramitsu, \<lparr>name = [], domain = [], scale = Some (- 3)\<rparr>],
              assets = [alice_100]\<rparr>)
   \<and> live \<lparr>definitions = [xor_soramitsu, \<lparr>name = [], domain = [], scale = Some (- 3)\<rparr>],
            assets = [alice_100]\<rparr>
   \<and> (0::nat) < length (definitions \<lparr>definitions = [xor_soramitsu], assets = [alice_100]\<rparr>)
   \<and> new_Asset 0 [] [] \<lparr>definitions = [xor_soramitsu], assets = [alice_100]\<rparr>
       = (1, \<lparr>definitions = [xor_soramitsu],
              assets = [alice_100, \<lparr>definition' = 0, account = [], value' = []\<rparr>]\<rparr>)
   \<and> live \<lparr>definitions = [xor_soramitsu],
            assets = [alice_100, \<lparr>definition' = 0, account = [], value' = []\<rparr>]\<rparr>
   \<and> get_id 0 \<lparr>definitions = [xor_soramitsu], assets = [alice_100]\<rparr> \<noteq> None
   \<and> AssetDefinition_repr 0 \<lparr>definitions = [xor_soramitsu], assets = [alice_100]\<rparr> \<noteq> None
   \<and> (0::nat) < length (assets \<lparr>definitions = [xor_soramitsu], assets = [alice_100]\<rparr>)
   \<and> get_value 0 \<lparr>definitions = [xor_soramitsu], assets = [alice_100]\<rparr> \<noteq> None
   \<and> Asset_repr 0 \<lparr>definitions = [xor_soramitsu], assets = [alice_100]\<rparr> \<noteq> None"
proof -
  have l: "live \<lparr>definitions = [xor_soramitsu], assets = [alice_100]\<rparr>"
    by (simp add: live_def alice_100_def)
  from construction_and_methods_never_fail
    [OF l, where n = "[]" and d = "[]" and sc = "Given (Some (- 3))"
       and dr = 0 and a = "[]" and v = "[]" and ?r0.0 = 0 and ?q0.0 = 0]
  show ?thesis
    using l
    by (simp add: new_AssetDefinition_def new_Asset_def AssetDefinition_init_def Asset_init_def)
qed

text \<open>
  C7. Two definitions constructed one after the other from the same name, domain and
  scale are two objects (their references differ), and \<^verbatim>\<open>==\<close> between them is
  \<^verbatim>\<open>True\<close>. More generally, in any store, \<^verbatim>\<open>==\<close> is \<^verbatim>\<open>True\<close> between any two
  definitions that hold the same name, the same domain and the same scale.
\<close>

theorem AssetDefinition_eq_identical_fields:
  "(case new_AssetDefinition n d sc h of
      (r1, h1) \<Rightarrow>
        (case new_AssetDefinition n d sc h1 of
           (r2, h2) \<Rightarrow> r1 \<noteq> r2 \<and> AssetDefinition_eq r1 r2 h2 = Some (True, h2)))
   \<and> (deref (definitions g) p = Some x \<and> deref (definitions g) q = Some y \<and>
        name x = name y \<and> domain x = domain y \<and> scale x = scale y \<longrightarrow>
      AssetDefinition_eq p q g = Some (True, g))"
proof (intro conjI impI)
  obtain r1 h1 where new1: "new_AssetDefinition n d sc h = (r1, h1)"
    by (cases "new_AssetDefinition n d sc h")
  obtain r2 h2 where new2: "new_AssetDefinition n d sc h1 = (r2, h2)"
    by (cases "new_AssetDefinition n d sc h1")
  let ?D = "AssetDefinition_init n d sc"
  from new1 have len: "length (definitions h1) = Suc r1"
    by (auto simp: new_AssetDefinition_def)
  from new2 have r2: "r2 = length (definitions h1)"
    by (auto simp: new_AssetDefinition_def)
  from len r2 have "r1 \<noteq> r2"
    by simp
  from len have "r1 < length (definitions h1)"
    by simp
  with new2 have "deref (definitions h2) r1 = deref (definitions h1) r1"
    by (rule new_AssetDefinition_old)
  with new_AssetDefinition_deref [OF new1] have D1: "deref (definitions h2) r1 = Some ?D"
    by simp
  from new2 have D2: "deref (definitions h2) r2 = Some ?D"
    by (rule new_AssetDefinition_deref)
  from AssetDefinition_eq_live [OF D1 D2] have "AssetDefinition_eq r1 r2 h2 = Some (True, h2)"
    by simp
  with \<open>r1 \<noteq> r2\<close> show "case new_AssetDefinition n d sc h of
      (r1, h1) \<Rightarrow>
        (case new_AssetDefinition n d sc h1 of
           (r2, h2) \<Rightarrow> r1 \<noteq> r2 \<and> AssetDefinition_eq r1 r2 h2 = Some (True, h2))"
    using new1 new2 by simp
next
  assume a: "deref (definitions g) p = Some x \<and> deref (definitions g) q = Some y \<and>
      name x = name y \<and> domain x = domain y \<and> scale x = scale y"
  then have "AssetDefinition_eq p q g =
      Some (name x = name y \<and> domain x = domain y \<and> scale x = scale y, g)"
    by (simp add: AssetDefinition_eq_live)
  with a show "AssetDefinition_eq p q g = Some (True, g)"
    by simp
qed

text \<open>
  The fixture's definition constructed twice in the empty store; and three definitions,
  the first and the third with the same fields.
\<close>

theorem AssetDefinition_eq_identical_fields_witness:
  "new_AssetDefinition ''xor'' ''soramitsu'' Omitted empty_heap
     = (0, \<lparr>definitions = [xor_soramitsu], assets = []\<rparr>)
   \<and> new_AssetDefinition ''xor'' ''soramitsu'' Omitted
        \<lparr>definitions = [xor_soramitsu], assets = []\<rparr>
     = (1, \<lparr>definitions = [xor_soramitsu, xor_soramitsu], assets = []\<rparr>)
   \<and> AssetDefinition_eq 0 1 \<lparr>definitions = [xor_soramitsu, xor_soramitsu], assets = []\<rparr>
     = Some (True, \<lparr>definitions = [xor_soramitsu, xor_soramitsu], assets = []\<rparr>)
   \<and> deref (definitions
       \<lparr>definitions = [xor_soramitsu, xor_soramitsu\<lparr>name := ''val''\<rparr>, xor_soramitsu],
        assets = []\<rparr>) 0 = Some xor_soramitsu
   \<and> deref (definitions
       \<lparr>definitions = [xor_soramitsu, xor_soramitsu\<lparr>name := ''val''\<rparr>, xor_soramitsu],
        assets = []\<rparr>) 2 = Some xor_soramitsu
   \<and> AssetDefinition_eq 0 2
       \<lparr>definitions = [xor_soramitsu, xor_soramitsu\<lparr>name := ''val''\<rparr>, xor_soramitsu],
        assets = []\<rparr>
     = Some (True,
         \<lparr>definitions = [xor_soramitsu, xor_soramitsu\<lparr>name := ''val''\<rparr>, xor_soramitsu],
          assets = []\<rparr>)"
proof -
  have new1: "new_AssetDefinition ''xor'' ''soramitsu'' Omitted empty_heap
      = (0, \<lparr>definitions = [xor_soramitsu], assets = []\<rparr>)"
    and new2: "new_AssetDefinition ''xor'' ''soramitsu'' Omitted
        \<lparr>definitions = [xor_soramitsu], assets = []\<rparr>
      = (1, \<lparr>definitions = [xor_soramitsu, xor_soramitsu], assets = []\<rparr>)"
    by (simp_all add: new_AssetDefinition_def AssetDefinition_init_def empty_heap_def
        xor_soramitsu_def)
  from AssetDefinition_eq_identical_fields
    [where g = "\<lparr>definitions = [xor_soramitsu, xor_soramitsu\<lparr>name := ''val''\<rparr>, xor_soramitsu],
                 assets = []\<rparr>"
       and p = 0 and q = 2 and x = xor_soramitsu and y = xor_soramitsu
       and n = "''xor''" and d = "''soramitsu''" and sc = Omitted and h = empty_heap]
  have "AssetDefinition_eq 0 1 \<lparr>definitions = [xor_soramitsu, xor_soramitsu], assets = []\<rparr>
      = Some (True, \<lparr>definitions = [xor_soramitsu, xor_soramitsu], assets = []\<rparr>)"
    and "AssetDefinition_eq 0 2
        \<lparr>definitions = [xor_soramitsu, xor_soramitsu\<lparr>name := ''val''\<rparr>, xor_soramitsu],
         assets = []\<rparr>
      = Some (True,
          \<lparr>definitions = [xor_soramitsu, xor_soramitsu\<lparr>name := ''val''\<rparr>, xor_soramitsu],
           assets = []\<rparr>)"
    by (simp_all add: new1 new2 deref_def)
  with new1 new2 show ?thesis
    by (simp add: deref_def)
qed

text \<open>
  C8, as the code has it. Every method of the two classes (\<^verbatim>\<open>get_id\<close>,
  \<^verbatim>\<open>get_value\<close>, the two display forms and the two generated comparisons) leaves the
  store it was given: no field of any object changes through a call, and the classes
  have no method that assigns. The objects themselves are not immutable: the classes
  are not frozen, and a field of a constructed object can be assigned.
\<close>

theorem methods_leave_store_unchanged:
  "(get_id r h = Some (s, h') \<longrightarrow> h' = h)
   \<and> (AssetDefinition_repr r h = Some (s, h') \<longrightarrow> h' = h)
   \<and> (AssetDefinition_eq r q h = Some (b, h') \<longrightarrow> h' = h)
   \<and> (get_value r h = Some (s, h') \<longrightarrow> h' = h)
   \<and> (Asset_repr r h = Some (s, h') \<longrightarrow> h' = h)
   \<and> (Asset_eq r q h = Some (b, h') \<longrightarrow> h' = h)"
proof (intro conjI impI)
  show "h' = h" if "get_id r h = Some (s, h')"
    using that by (rule get_id_frame)
  show "h' = h" if "AssetDefinition_repr r h = Some (s, h')"
    using that by (auto simp: AssetDefinition_repr_def split: option.splits)
  show "h' = h" if "AssetDefinition_eq r q h = Some (b, h')"
    using that by (rule AssetDefinition_eq_frame)
  show "h' = h" if "get_value r h = Some (s, h')"
    using that by (auto simp: get_value_def split: option.splits)
  show "h' = h" if "Asset_repr r h = Some (s, h')"
    using that by (rule Asset_repr_frame)
  show "h' = h" if "Asset_eq r q h = Some (b, h')"
    using that by (rule Asset_eq_frame)
qed

text \<open>In the store of the fixture every method returns, and returns that store.\<close>

theorem methods_leave_store_unchanged_witness:
  "get_id 0 \<lparr>definitions = [xor_soramitsu], assets = [alice_100]\<rparr>
     = Some (''xor#soramitsu'', \<lparr>definitions = [xor_soramitsu], assets = [alice_100]\<rparr>)
   \<and> AssetDefinition_repr 0 \<lparr>definitions = [xor_soramitsu], assets = [alice_100]\<rparr>
     = Some (''xor#soramitsu'', \<lparr>definitions = [xor_soramitsu], assets = [alice_100]\<rparr>)
   \<and> AssetDefinition_eq 0 0 \<lparr>definitions = [xor_soramitsu], assets = [alice_100]\<rparr>
     = Some (True, \<lparr>definitions = [xor_soramitsu], assets = [alice_100]\<rparr>)
   \<and> get_value 0 \<lparr>definitions = [xor_soramitsu], assets = [alice_100]\<rparr>
     = Some (''100'', \<lparr>definitions = [xor_soramitsu], assets = [alice_100]\<rparr>)
   \<and> Asset_repr 0 \<lparr>definitions = [xor_soramitsu], assets = [alice_100]\<rparr>
     = Some (''xor#soramitsu:100'', \<lparr>definitions = [xor_soramitsu], assets = [alice_100]\<rparr>)
   \<and> Asset_eq 0 0 \<lparr>definitions = [xor_soramitsu], assets = [alice_100]\<rparr>
     = Some (True, \<lparr>definitions = [xor_soramitsu], assets = [alice_100]\<rparr>)"
proof -
  let ?h = "\<lparr>definitions = [xor_soramitsu], assets = [alice_100]\<rparr>"
  have D: "deref (definitions ?h) 0 = Some xor_soramitsu"
    and x: "deref (assets ?h) 0 = Some alice_100"
    by (simp_all add: deref_def)
  from D have Dx: "deref (definitions ?h) (definition' alice_100) = Some xor_soramitsu"
    by (simp add: alice_100_def)
  from get_id_live [OF D] obtain k where id: "get_id 0 ?h = Some (''xor#soramitsu'', k)"
    by (simp add: xor_soramitsu_def)
  from Asset_repr_live [OF x Dx]
  obtain l where repr: "Asset_repr 0 ?h = Some (''xor#soramitsu:100'', l)"
    by (simp add: xor_soramitsu_def alice_100_def)
  from methods_leave_store_unchanged
    [where r = 0 and h = ?h and s = "''xor#soramitsu''" and h' = k] id
  have "k = ?h"
    by simp
  moreover from methods_leave_store_unchanged
    [where r = 0 and h = ?h and s = "''xor#soramitsu:100''" and h' = l] repr
  have "l = ?h"
    by simp
  ultimately show ?thesis
    using id repr D x
    by (simp add: AssetDefinition_repr_def AssetDefinition_eq_def get_value_def Asset_eq_def
        alice_100_def xor_soramitsu_def)
qed

text \<open>
  The claim as the specification states it fails: an asset constructed with the value
  \<^verbatim>\<open>"100"\<close> holds \<^verbatim>\<open>"5"\<close> after \<^verbatim>\<open>asset.value = "5"\<close>.
\<close>

theorem records_not_immutable:
  "new_Asset 0 ''alice@wonderland'' ''100'' \<lparr>definitions = [xor_soramitsu], assets = []\<rparr>
     = (0, \<lparr>definitions = [xor_soramitsu], assets = [alice_100]\<rparr>)
   \<and> get_value 0 \<lparr>definitions = [xor_soramitsu], assets = [alice_100]\<rparr>
     = Some (''100'', \<lparr>definitions = [xor_soramitsu], assets = [alice_100]\<rparr>)
   \<and> set_value 0 ''5'' \<lparr>definitions = [xor_soramitsu], assets = [alice_100]\<rparr>
     = Some \<lparr>definitions = [xor_soramitsu], assets = [alice_100\<lparr>value' := ''5''\<rparr>]\<rparr>
   \<and> get_value 0 \<lparr>definitions = [xor_soramitsu], assets = [alice_100\<lparr>value' := ''5''\<rparr>]\<rparr>
     = Some (''5'', \<lparr>definitions = [xor_soramitsu], assets = [alice_100\<lparr>value' := ''5''\<rparr>]\<rparr>)
   \<and> alice_100\<lparr>value' := ''5''\<rparr> \<noteq> alice_100"
  by (simp add: new_Asset_def Asset_init_def alice_100_def get_value_def set_value_def deref_def)

text \<open>
  C9. \<^verbatim>\<open>get_id\<close> does not determine the fields: the definitions constructed from
  the name \<^verbatim>\<open>a#b\<close> with the domain \<^verbatim>\<open>c\<close>, and from the name \<^verbatim>\<open>a\<close> with the domain
  \<^verbatim>\<open>b#c\<close>, hold different pairs of name and domain, and \<^verbatim>\<open>get_id\<close> returns
  \<^verbatim>\<open>a#b#c\<close> on both.
\<close>

theorem get_id_not_injective:
  "case new_AssetDefinition ''a#b'' ''c'' sc1 h of
     (r1, h1) \<Rightarrow>
       (case new_AssetDefinition ''a'' ''b#c'' sc2 h1 of
          (r2, h2) \<Rightarrow>
            map_option (\<lambda>D. (name D, domain D)) (deref (definitions h2) r1)
              = Some (''a#b'', ''c'')
            \<and> map_option (\<lambda>D. (name D, domain D)) (deref (definitions h2) r2)
              = Some (''a'', ''b#c'')
            \<and> (''a#b'', ''c'') \<noteq> (''a'', ''b#c'')
            \<and> get_id r1 h2 = Some (''a#b#c'', h2)
            \<and> get_id r2 h2 = Some (''a#b#c'', h2))"
proof -
  obtain r1 h1 where new1: "new_AssetDefinition ''a#b'' ''c'' sc1 h = (r1, h1)"
    by (cases "new_AssetDefinition ''a#b'' ''c'' sc1 h")
  obtain r2 h2 where new2: "new_AssetDefinition ''a'' ''b#c'' sc2 h1 = (r2, h2)"
    by (cases "new_AssetDefinition ''a'' ''b#c'' sc2 h1")
  let ?D1 = "AssetDefinition_init ''a#b'' ''c'' sc1"
  let ?D2 = "AssetDefinition_init ''a'' ''b#c'' sc2"
  from new1 have "r1 < length (definitions h1)"
    by (auto simp: new_AssetDefinition_def)
  with new2 have "deref (definitions h2) r1 = deref (definitions h1) r1"
    by (rule new_AssetDefinition_old)
  with new_AssetDefinition_deref [OF new1] have D1: "deref (definitions h2) r1 = Some ?D1"
    by simp
  from new2 have D2: "deref (definitions h2) r2 = Some ?D2"
    by (rule new_AssetDefinition_deref)
  have "map_option (\<lambda>D. (name D, domain D)) (deref (definitions h2) r1) = Some (''a#b'', ''c'')"
    using D1 by (simp add: AssetDefinition_init_def)
  moreover
  have "map_option (\<lambda>D. (name D, domain D)) (deref (definitions h2) r2) = Some (''a'', ''b#c'')"
    using D2 by (simp add: AssetDefinition_init_def)
  moreover have "(''a#b'', ''c'') \<noteq> (''a'', ''b#c'')"
    by simp
  moreover from get_id_live [OF D1] have "get_id r1 h2 = Some (''a#b#c'', h2)"
    by (simp add: AssetDefinition_init_def)
  moreover from get_id_live [OF D2] have "get_id r2 h2 = Some (''a#b#c'', h2)"
    by (simp add: AssetDefinition_init_def)
  ultimately show ?thesis
    using new1 new2 by simp
qed

text \<open>
  C10. \<^verbatim>\<open>==\<close> between two assets \<open>x\<close> and \<open>y\<close> whose definitions are \<open>dx\<close> and
  \<open>dy\<close> is \<^verbatim>\<open>True\<close> exactly when \<open>dx\<close> and \<open>dy\<close> hold the same name, domain and
  scale, and \<open>x\<close> and \<open>y\<close> hold the same account and the same value. Whether the two
  assets share one definition object or refer to two does not matter.
\<close>

theorem Asset_eq_structural:
  assumes x: "deref (assets h) p = Some x" and y: "deref (assets h) q = Some y"
    and dx: "deref (definitions h) (definition' x) = Some dx"
    and dy: "deref (definitions h) (definition' y) = Some dy"
  shows "Asset_eq p q h =
    Some ((name dx = name dy \<and> domain dx = domain dy \<and> scale dx = scale dy)
          \<and> account x = account y \<and> value' x = value' y, h)"
proof (cases "definition' x = definition' y")
  case True
  with dx dy have "dx = dy"
    by simp
  with True x y show ?thesis
    by (simp add: Asset_eq_def)
next
  case False
  from AssetDefinition_eq_live [OF dx dy] False x y show ?thesis
    by (simp add: Asset_eq_def)
qed

text \<open>
  Two assets of \<^verbatim>\<open>"alice@wonderland"\<close> with the value \<^verbatim>\<open>"100"\<close>, each with a
  definition object of its own: equal when the two definitions hold the same fields,
  different when one of them has the scale 2.
\<close>

theorem Asset_eq_structural_witness:
  "Asset_eq 0 1
      \<lparr>definitions = [xor_soramitsu, xor_soramitsu],
       assets = [alice_100, alice_100\<lparr>definition' := 1\<rparr>]\<rparr>
     = Some (True,
         \<lparr>definitions = [xor_soramitsu, xor_soramitsu],
          assets = [alice_100, alice_100\<lparr>definition' := 1\<rparr>]\<rparr>)
   \<and> Asset_eq 0 1
      \<lparr>definitions = [xor_soramitsu, xor_soramitsu\<lparr>scale := Some 2\<rparr>],
       assets = [alice_100, alice_100\<lparr>definition' := 1\<rparr>]\<rparr>
     = Some (False,
         \<lparr>definitions = [xor_soramitsu, xor_soramitsu\<lparr>scale := Some 2\<rparr>],
          assets = [alice_100, alice_100\<lparr>definition' := 1\<rparr>]\<rparr>)"
proof -
  let ?h = "\<lparr>definitions = [xor_soramitsu, xor_soramitsu],
             assets = [alice_100, alice_100\<lparr>definition' := 1\<rparr>]\<rparr>"
  let ?g = "\<lparr>definitions = [xor_soramitsu, xor_soramitsu\<lparr>scale := Some 2\<rparr>],
             assets = [alice_100, alice_100\<lparr>definition' := 1\<rparr>]\<rparr>"
  have "deref (assets ?h) 0 = Some alice_100"
    and "deref (assets ?h) 1 = Some (alice_100\<lparr>definition' := 1\<rparr>)"
    and "deref (definitions ?h) (definition' alice_100) = Some xor_soramitsu"
    and "deref (definitions ?h) (definition' (alice_100\<lparr>definition' := 1\<rparr>)) = Some xor_soramitsu"
    by (simp_all add: deref_def alice_100_def)
  from Asset_eq_structural [OF this] have "Asset_eq 0 1 ?h = Some (True, ?h)"
    by simp
  moreover
  have "deref (assets ?g) 0 = Some alice_100"
    and "deref (assets ?g) 1 = Some (alice_100\<lparr>definition' := 1\<rparr>)"
    and "deref (definitions ?g) (definition' alice_100) = Some xor_soramitsu"
    and "deref (definitions ?g) (definition' (alice_100\<lparr>definition' := 1\<rparr>))
      = Some (xor_soramitsu\<lparr>scale := Some 2\<rparr>)"
    by (simp_all add: deref_def alice_100_def)
  from Asset_eq_structural [OF this] have "Asset_eq 0 1 ?g = Some (False, ?g)"
    by (simp add: xor_soramitsu_def)
  ultimately show ?thesis
    by simp
qed

end
